theory Spec2Isabelle
  imports Main
begin

unbundle bit_operations_syntax

section \<open>iMuse Digital: track sequencing, fades and the feed loop\<close>

text \<open>
  A shallow embedding of \<^verbatim>\<open>engines/scumm/imuse_digi/dimuse.cpp\<close>: the fade and
  gain-reduction blocks of \<^verbatim>\<open>IMuseDigital::callback\<close>, its PCM feed loop,
  \<^verbatim>\<open>IMuseDigital::switchToNextRegion\<close> and the loading half of
  \<^verbatim>\<open>IMuseDigital::saveLoadEarly\<close>.

  The fields of a track are \<^verbatim>\<open>int32\<close> in the source. They are embedded as
  \<^typ>\<open>int\<close>: signed overflow is undefined in C++, so the embedding describes the source
  on the values whose arithmetic stays inside 32 bits (volumes are 0..127000, steps and
  offsets are derived from them and from the sizes of a sound).
\<close>

subsection \<open>Data model\<close>

datatype GameId = GID_CMI | GID_DIG | GID_FT

datatype Error =
    AssertionFailed string
  | FatalError string
  | NullSoundDesc

text \<open>
  \<^verbatim>\<open>ImuseDigiSndMgr::SoundDesc\<close> together with the queries of the sound manager on it
  (\<^verbatim>\<open>getNumRegions\<close>, \<^verbatim>\<open>getRegionOffset\<close>, \<^verbatim>\<open>checkForTriggerByRegionAndMarker\<close>,
  \<^verbatim>\<open>getJumpIdByRegionAndHookId\<close>, \<^verbatim>\<open>getRegionIdByJumpId\<close>, \<^verbatim>\<open>getJumpHookId\<close>,
  \<^verbatim>\<open>getJumpFade\<close>, \<^verbatim>\<open>getBits\<close>, \<^verbatim>\<open>getChannels\<close>, \<^verbatim>\<open>getFreq\<close>,
  \<^verbatim>\<open>isSndDataExtComp\<close>). The sound manager is an external collaborator
  (dimuse\_sndmgr.cpp is not part of the sources at hand), so an opened sound is the
  record of what these queries answer.
\<close>

record SoundDesc =
  numRegions :: int
  numMarkers :: int
  getRegionOffset :: "int \<Rightarrow> int"
  checkForTriggerByRegionAndMarker :: "int \<Rightarrow> string \<Rightarrow> bool"
  getJumpIdByRegionAndHookId :: "int \<Rightarrow> int \<Rightarrow> int"
  getRegionIdByJumpId :: "int \<Rightarrow> int"
  getJumpHookId :: "int \<Rightarrow> int"
  getJumpFade :: "int \<Rightarrow> int"
  jumpDest :: "int \<Rightarrow> int"
  markerPos :: "int \<Rightarrow> int"
  markerPtr :: "int \<Rightarrow> string"
  getBits :: int
  getChannels :: int
  getFreq :: int
  sdLittleEndian :: bool
  isSndDataExtComp :: bool

text \<open>
  \<^verbatim>\<open>struct Track\<close>. \<open>soundDesc\<close> is the pointer to the opened sound (\<open>None\<close> is
  \<^verbatim>\<open>NULL\<close>); \<open>stream\<close> tells whether the pointer to the queuing audio stream is
  non-null.
\<close>

record Track =
  trackId :: int
  pan :: int
  vol :: int
  volFadeDest :: int
  volFadeStep :: int
  volFadeDelay :: int
  volFadeUsed :: bool
  gainReduction :: int
  gainRedFadeDest :: int
  gainRedFadeUsed :: bool
  alreadyCrossfading :: bool
  soundId :: int
  soundName :: string
  used :: bool
  toBeRemoved :: bool
  souStreamUsed :: bool
  sndDataExtComp :: bool
  soundPriority :: int
  regionOffset :: int
  dataOffset :: int
  curRegion :: int
  curHookId :: int
  volGroupId :: int
  soundType :: int
  feedSize :: int
  dataMod12Bit :: int
  mixerFlags :: int
  littleEndian :: bool
  soundDesc :: "SoundDesc option"
  stream :: bool

record TriggerParams =
  marker :: string
  fadeOutDelay :: int
  filename :: string
  tpSoundId :: int
  tpHookId :: int
  tpVolume :: int

text \<open>
  The game profile and what the source takes from files that are not at hand: the
  constants of dimuse.h (\<^verbatim>\<open>MAX_DIGITAL_TRACKS\<close>, \<^verbatim>\<open>kTalkSoundID\<close>,
  \<^verbatim>\<open>IMUSE_VOLGRP_MUSIC\<close>), the two curve transforms, \<^verbatim>\<open>cloneToFadeOutTrack\<close>,
  \<^verbatim>\<open>handleFadeOut\<close>, \<^verbatim>\<open>Track::reset\<close> and the sound manager's \<^verbatim>\<open>openSound\<close>.
  They are parameters: every theorem below that does not restrict them holds for
  whatever they are.
\<close>

record Env =
  gameId :: GameId
  callbackFps :: int
  MAX_DIGITAL_TRACKS :: int
  MAX_DIGITAL_FADETRACKS :: int
  kTalkSoundID :: int
  IMUSE_VOLGRP_MUSIC :: int
  transformVolumeEqualPowToLinear :: "int \<Rightarrow> int \<Rightarrow> int"
  transformVolumeLinearToEqualPow :: "int \<Rightarrow> int \<Rightarrow> int"
  cloneToFadeOutTrack :: "Track \<Rightarrow> int \<Rightarrow> Track option"
  handleFadeOut :: "Track \<Rightarrow> int \<Rightarrow> Track"
  trackReset :: "Track \<Rightarrow> Track"
  kFlagUnsigned :: int
  kFlag16Bits :: int
  kFlagStereo :: int
  openSound :: "int \<Rightarrow> string \<Rightarrow> int \<Rightarrow> int \<Rightarrow> int \<Rightarrow> SoundDesc option"

text \<open>C++ integer division truncates towards zero.\<close>

definition cdiv :: "int \<Rightarrow> int \<Rightarrow> int" where
  "cdiv a b = sgn a * sgn b * (\<bar>a\<bar> div \<bar>b\<bar>)"

text \<open>
  Modelled from the spec: \<^verbatim>\<open>IMuseDigital::flushTrack\<close> is defined in dimuse\_track.cpp,
  which is not among the sources. The specification describes it as the release of a
  track: it "closes SoundBank handle, unregisters mixer queue, clears \<open>used\<close>".
\<close>

definition flushTrack :: "Track \<Rightarrow> Track" where
  "flushTrack t = t\<lparr>used := False, soundDesc := None, stream := False\<rparr>"

subsection \<open>Fades and crossfades handling (callback)\<close>

text \<open>
  The outcome of a block of the callback's loop body for one track: \<open>Continue\<close> when
  the source leaves the body with \<^verbatim>\<open>continue\<close>, \<open>Proceed\<close> when it falls through to
  the next block.
\<close>

datatype Outcome = Continue Track | Proceed Track


text \<open>The stepped volume of a fade-out tick, before the clamp (lines 253-259).\<close>

definition fadeOutStep :: "Env \<Rightarrow> Track \<Rightarrow> int" where
  "fadeOutStep env t =
     (if gameId env = GID_CMI
      then transformVolumeLinearToEqualPow env
             (transformVolumeEqualPowToLinear env (vol t) 1 + volFadeStep t) 1
      else vol t + volFadeStep t)"

text \<open>The stepped volume of a fade-in tick, before the clamp (lines 282-292).\<close>

definition fadeInStep :: "Env \<Rightarrow> Track \<Rightarrow> int" where
  "fadeInStep env t =
     (if gameId env = GID_CMI
      then transformVolumeLinearToEqualPow env
             (transformVolumeEqualPowToLinear env (vol t) 1 + volFadeStep t) 1
      else if gameId env = GID_FT
      then transformVolumeLinearToEqualPow env
             (transformVolumeEqualPowToLinear env (vol t) 6 + volFadeStep t) 6
      else vol t + volFadeStep t)"

definition fadeHandling :: "Env \<Rightarrow> Track \<Rightarrow> Outcome" where
  "fadeHandling env t0 =
     (if \<not> volFadeUsed t0 then Proceed t0
      else
        let t = (if vol t0 = volFadeDest t0 then t0\<lparr>volFadeUsed := False\<rparr> else t0) in
        if volFadeStep t < 0 then
          (if vol t > volFadeDest t then
             (let t1 = t\<lparr>vol := fadeOutStep env t\<rparr> in
              if vol t1 \<le> volFadeDest t1 then
                (let t2 = t1\<lparr>vol := volFadeDest t1, volFadeUsed := False\<rparr> in
                 if gameId env = GID_CMI then Continue (flushTrack t2)
                 else if vol t2 = 0 then Continue (flushTrack t2)
                 else Proceed t2)
              else if vol t1 = 0 then Continue (flushTrack t1)
              else Proceed t1)
           else Proceed t)
        else if volFadeStep t > 0 then
          (if vol t < volFadeDest t then
             (let t1 = t\<lparr>vol := fadeInStep env t\<rparr> in
              if vol t1 \<ge> volFadeDest t1
              then Proceed (t1\<lparr>vol := volFadeDest t1, volFadeUsed := False\<rparr>)
              else Proceed t1)
           else Proceed t)
        else Proceed t)"

text \<open>
  Repeated ticks of the fade block on one track. A track that was flushed is no longer
  stepped (the callback only visits tracks in use that still have a stream).
\<close>

fun fadeRun :: "Env \<Rightarrow> nat \<Rightarrow> Track \<Rightarrow> Outcome" where
  "fadeRun env 0 t = Proceed t"
| "fadeRun env (Suc n) t =
     (case fadeHandling env t of
        Continue t' \<Rightarrow> Continue t'
      | Proceed t' \<Rightarrow> fadeRun env n t')"


subsection \<open>Music gain reduction during speech (callback)\<close>


text \<open>The step added to the linearised reduction on a ramp tick (line 315).\<close>

definition gainRedStep :: "Env \<Rightarrow> Track \<Rightarrow> int" where
  "gainRedStep env t =
     cdiv ((gainRedFadeDest t - gainReduction t) * 60 * cdiv 1000 (callbackFps env)) (1000 * 20)"

definition gainReductionHandling :: "Env \<Rightarrow> bool \<Rightarrow> Track \<Rightarrow> Track" where
  "gainReductionHandling env speechIsPlaying t =
     (if gameId env \<noteq> GID_DIG \<and> volGroupId t = IMUSE_VOLGRP_MUSIC env then
        (if speechIsPlaying then
           (let t1 = (if gainReduction t \<ge> gainRedFadeDest t
                      then t\<lparr>gainRedFadeUsed := False, gainReduction := gainRedFadeDest t\<rparr>
                      else t\<lparr>gainRedFadeUsed := True\<rparr>) in
            if gainRedFadeUsed t1 \<and> gainReduction t1 < gainRedFadeDest t1 then
              (let tempReduction = transformVolumeEqualPowToLinear env (gainReduction t1) 2;
                   tempReduction' = tempReduction + gainRedStep env t1
               in t1\<lparr>gainReduction := transformVolumeLinearToEqualPow env tempReduction' 2\<rparr>)
            else t1)
         else if \<not> speechIsPlaying \<and> gainReduction t > 0 then t\<lparr>gainReduction := 0\<rparr>
         else t)
      else t)"


subsection \<open>switchToNextRegion\<close>

text \<open>
  The fields of \<^verbatim>\<open>IMuseDigital\<close> that the region switch and the feed loop read and
  write.
\<close>

record Engine =
  triggerUsed :: bool
  triggerParams :: TriggerParams
  pause :: bool
  radioChatterSFX :: bool

text \<open>
  What one call of \<^verbatim>\<open>switchToNextRegion\<close> leaves behind: the track itself, the
  fade-out clone it allocated through \<^verbatim>\<open>cloneToFadeOutTrack\<close> (if any), whether it
  called \<^verbatim>\<open>startMusic\<close> with the trigger's parameters, and \<^verbatim>\<open>_triggerUsed\<close>.
\<close>

record SwitchResult =
  swTrack :: Track
  swFadeTrack :: "Track option"
  swStartMusic :: bool
  swTriggerUsed :: bool

text \<open>\<^verbatim>\<open>scumm_stricmp(a, b) == 0\<close>: equality of strings up to the case of ASCII letters.\<close>

definition toLowerChar :: "char \<Rightarrow> char" where
  "toLowerChar c =
     (let n = (of_char c :: nat) in if 65 \<le> n \<and> n \<le> 90 then char_of (n + 32) else c)"

definition scumm_stricmp_eq :: "string \<Rightarrow> string \<Rightarrow> bool" where
  "scumm_stricmp_eq a b = (map toLowerChar a = map toLowerChar b)"

text \<open>
  Line 541: the jump leads to the position of marker 2, and marker 2 is "start". The
  source reads \<^verbatim>\<open>marker[2]\<close> whatever \<^verbatim>\<open>numMarkers\<close> is; the markers are
  total functions of the index here.
\<close>

definition isJumpToStart :: "SoundDesc \<Rightarrow> int \<Rightarrow> bool" where
  "isJumpToStart sd jumpId =
     (jumpDest sd jumpId = markerPos sd 2 \<and> scumm_stricmp_eq (markerPtr sd 2) ''start'')"

text \<open>Lines 505-508 and 558-561: the set-up of a freshly cloned fade track.\<close>

definition setupFadeTrack :: "Track \<Rightarrow> Error + Track" where
  "setupFadeTrack ft =
     (case soundDesc ft of
        None \<Rightarrow> Inl NullSoundDesc
      | Some fsd \<Rightarrow>
          Inr (ft\<lparr>dataOffset := getRegionOffset fsd (curRegion ft),
                  regionOffset := 0, curHookId := 0\<rparr>))"

text \<open>Lines 584-587: the common end of the function.\<close>

definition selectRegion :: "Engine \<Rightarrow> SoundDesc \<Rightarrow> Track \<Rightarrow> Track option \<Rightarrow> SwitchResult" where
  "selectRegion eng sd t fade =
     \<lparr>swTrack = t\<lparr>dataOffset := getRegionOffset sd (curRegion t), regionOffset := 0\<rparr>,
      swFadeTrack = fade, swStartMusic = False, swTriggerUsed = triggerUsed eng\<rparr>"

text \<open>Lines 497-530: a pending trigger whose marker is found at the region entered.\<close>

definition triggerReached :: "Env \<Rightarrow> Engine \<Rightarrow> SoundDesc \<Rightarrow> Track \<Rightarrow> Error + SwitchResult" where
  "triggerReached env eng sd t =
     (let tp = triggerParams eng in
      if gameId env \<noteq> GID_CMI then
        (case cloneToFadeOutTrack env t (fadeOutDelay tp) of
           None \<Rightarrow>
             Inr \<lparr>swTrack = flushTrack t, swFadeTrack = None,
                  swStartMusic = True, swTriggerUsed = False\<rparr>
         | Some ft \<Rightarrow>
             (case setupFadeTrack ft of
                Inl e \<Rightarrow> Inl e
              | Inr ft' \<Rightarrow>
                  Inr \<lparr>swTrack = flushTrack t, swFadeTrack = Some ft',
                       swStartMusic = True, swTriggerUsed = False\<rparr>))
      else
        (let t2 = handleFadeOut env t (fadeOutDelay tp) in
         case soundDesc t2 of
           None \<Rightarrow> Inl NullSoundDesc
         | Some sd2 \<Rightarrow>
             Inr \<lparr>swTrack = t2\<lparr>dataOffset := getRegionOffset sd2 (curRegion t2),
                                regionOffset := 0, curHookId := 0\<rparr>,
                  swFadeTrack = None,
                  swStartMusic = scumm_stricmp_eq (marker tp) ''exit'',
                  swTriggerUsed = False\<rparr>))"

text \<open>Lines 532-583: the jump table, consulted for the region entered.\<close>

definition jumpOrAdvance :: "Env \<Rightarrow> Engine \<Rightarrow> SoundDesc \<Rightarrow> Track \<Rightarrow> Error + SwitchResult" where
  "jumpOrAdvance env eng sd t =
     (let jumpId = getJumpIdByRegionAndHookId sd (curRegion t) (curHookId t) in
      if (gameId env \<noteq> GID_CMI \<and> jumpId \<noteq> - 1) \<or>
         (gameId env = GID_CMI \<and> jumpId \<noteq> - 1 \<and> \<not> toBeRemoved t \<and> \<not> alreadyCrossfading t)
      then
        (let region = getRegionIdByJumpId sd jumpId in
         if region = - 1 then Inl (AssertionFailed ''region != -1'')
         else
           let sampleHookId = getJumpHookId sd jumpId in
           if sampleHookId = - 1 then Inl (AssertionFailed ''sampleHookId != -1'')
           else
             let jumpToStart = (gameId env = GID_CMI \<and> isJumpToStart sd jumpId) in
             if curHookId t = sampleHookId then
               (let fadeDelay = cdiv (60 * getJumpFade sd jumpId) 1000 in
                if gameId env = GID_CMI
                then Inr (selectRegion eng sd (t\<lparr>curRegion := region, curHookId := 0\<rparr>) None)
                else if fadeDelay \<noteq> 0 then
                  (case cloneToFadeOutTrack env t fadeDelay of
                     None \<Rightarrow> Inr (selectRegion eng sd (t\<lparr>curHookId := 0\<rparr>) None)
                   | Some ft \<Rightarrow>
                       (case setupFadeTrack ft of
                          Inl e \<Rightarrow> Inl e
                        | Inr ft' \<Rightarrow> Inr (selectRegion eng sd (t\<lparr>curHookId := 0\<rparr>) (Some ft'))))
                else Inr (selectRegion eng sd (t\<lparr>curRegion := region, curHookId := 0\<rparr>) None))
             else if gameId env = GID_CMI \<and> jumpToStart
             then Inr (selectRegion eng sd (t\<lparr>curRegion := region\<rparr>) None)
             else Inr (selectRegion eng sd t None))
      else Inr (selectRegion eng sd t None))"

definition switchToNextRegion :: "Env \<Rightarrow> Engine \<Rightarrow> Track \<Rightarrow> Error + SwitchResult" where
  "switchToNextRegion env eng t =
     (if trackId t \<ge> MAX_DIGITAL_TRACKS env then
        Inr \<lparr>swTrack = flushTrack t, swFadeTrack = None,
             swStartMusic = False, swTriggerUsed = triggerUsed eng\<rparr>
      else
        (case soundDesc t of
           None \<Rightarrow> Inl NullSoundDesc
         | Some sd \<Rightarrow>
             (let t1 = t\<lparr>curRegion := curRegion t + 1\<rparr> in
              if curRegion t1 = numRegions sd then
                Inr \<lparr>swTrack = flushTrack t1, swFadeTrack = None,
                     swStartMusic = False, swTriggerUsed = triggerUsed eng\<rparr>
              else if triggerUsed eng \<and> numMarkers sd \<noteq> 0 \<and>
                      checkForTriggerByRegionAndMarker sd (curRegion t1) (marker (triggerParams eng))
              then triggerReached env eng sd t1
              else jumpOrAdvance env eng sd t1)))"


subsection \<open>The PCM feed loop (callback)\<close>

text \<open>
  The state of the loop body for one track: the track, the engine fields, the fade
  tracks allocated and the number of \<^verbatim>\<open>startMusic\<close> calls made by region switches so far,
  and the locals \<^verbatim>\<open>feedSize\<close> and \<^verbatim>\<open>curFeedSize\<close>.
\<close>

record LoopState =
  lsTrack :: Track
  lsEngine :: Engine
  lsFadeTracks :: "Track list"
  lsStartMusic :: nat
  lsFeedSize :: int
  lsCurFeedSize :: int

definition applySwitch :: "LoopState \<Rightarrow> SwitchResult \<Rightarrow> LoopState" where
  "applySwitch ls r =
     ls\<lparr>lsTrack := swTrack r,
        lsEngine := (lsEngine ls)\<lparr>triggerUsed := swTriggerUsed r\<rparr>,
        lsFadeTracks := lsFadeTracks ls @ (case swFadeTrack r of None \<Rightarrow> [] | Some ft \<Rightarrow> [ft]),
        lsStartMusic := lsStartMusic ls + (if swStartMusic r then 1 else 0)\<rparr>"

text \<open>
  What the collaborators answer during one iteration of the loop: the byte count
  returned by \<^verbatim>\<open>getDataFromRegion\<close>, the size returned by
  \<^verbatim>\<open>BundleCodecs::decode12BitsSample\<close>, \<^verbatim>\<open>_mixer->isReady()\<close> and
  \<^verbatim>\<open>_sound->isEndOfRegion\<close>. They are arbitrary: the sound manager, the codec and the
  mixer are external.
\<close>

record FeedOracle =
  dataFromRegion :: int
  decoded12 :: int
  mixerIsReady :: bool
  endOfRegion :: bool

text \<open>
  Lines 363-414: the three sample widths. The result is the track (its
  \<^verbatim>\<open>dataMod12Bit\<close> changes for 12 bits), \<^verbatim>\<open>feedSize\<close> and \<^verbatim>\<open>curFeedSize\<close>. The
  contents of the buffers (and the filter of the radio chatter effect on them) are
  not part of the state.
\<close>

definition readSamples :: "int \<Rightarrow> int \<Rightarrow> FeedOracle \<Rightarrow> LoopState \<Rightarrow> LoopState" where
  "readSamples bits channels orc ls =
     (let t = lsTrack ls; fs = lsFeedSize ls in
      if bits = 12 then
        (let fs' = fs + dataMod12Bit t;
             tmpFeedSize12Bits = cdiv (fs' * 3) 4;
             tmpLength12Bits = cdiv tmpFeedSize12Bits 3 * 4
         in ls\<lparr>lsTrack := t\<lparr>dataMod12Bit := fs' - tmpLength12Bits\<rparr>,
               lsFeedSize := fs', lsCurFeedSize := decoded12 orc\<rparr>)
      else if bits = 16 then
        (let c = dataFromRegion orc;
             c1 = (if channels = 1 then c AND NOT 1 else c);
             c2 = (if channels = 2 then c1 AND NOT 3 else c1)
         in ls\<lparr>lsCurFeedSize := c2\<rparr>)
      else if bits = 8 then
        (let c = dataFromRegion orc;
             c1 = (if radioChatterSFX (lsEngine ls) \<and> soundId t = 10000
                   then (if c > fs then fs else c) else c);
             c2 = (if channels = 2 then c1 AND NOT 1 else c1)
         in ls\<lparr>lsCurFeedSize := c2\<rparr>)
      else ls)"

text \<open>Lines 416-417: no more than what is still wanted is queued.\<close>

definition clampFeed :: "LoopState \<Rightarrow> LoopState" where
  "clampFeed ls =
     (if lsCurFeedSize ls > lsFeedSize ls then ls\<lparr>lsCurFeedSize := lsFeedSize ls\<rparr> else ls)"

text \<open>Lines 419-423: the buffer is queued when the mixer is ready, dropped otherwise.\<close>

definition queueBuffer :: "FeedOracle \<Rightarrow> LoopState \<Rightarrow> LoopState" where
  "queueBuffer orc ls =
     (if mixerIsReady orc
      then ls\<lparr>lsTrack := (lsTrack ls)\<lparr>regionOffset :=
                  regionOffset (lsTrack ls) + lsCurFeedSize ls\<rparr>\<rparr>
      else ls)"

text \<open>Lines 425-426: the region switch at the end of a region.\<close>

definition regionEnd :: "Env \<Rightarrow> FeedOracle \<Rightarrow> LoopState \<Rightarrow> Error + LoopState" where
  "regionEnd env orc ls =
     (if endOfRegion orc
      then (case switchToNextRegion env (lsEngine ls) (lsTrack ls) of
              Inl e \<Rightarrow> Inl e
            | Inr r \<Rightarrow> Inr (applySwitch ls r))
      else Inr ls)"

text \<open>
  One iteration of the \<^verbatim>\<open>do ... while\<close> body (lines 363-431). The Boolean is true when
  the body was left with \<^verbatim>\<open>break\<close>.
\<close>

definition feedIteration ::
  "Env \<Rightarrow> int \<Rightarrow> int \<Rightarrow> FeedOracle \<Rightarrow> LoopState \<Rightarrow> Error + (bool \<times> LoopState)" where
  "feedIteration env bits channels orc ls0 =
     (case regionEnd env orc (queueBuffer orc (clampFeed (readSamples bits channels orc ls0))) of
        Inl e \<Rightarrow> Inl e
      | Inr ls4 \<Rightarrow>
          if endOfRegion orc \<and> \<not> stream (lsTrack ls4) then Inr (True, ls4)
          else
            (let ls5 = ls4\<lparr>lsFeedSize := lsFeedSize ls4 - lsCurFeedSize ls4\<rparr> in
             if lsFeedSize ls5 \<ge> 0 then Inr (False, ls5)
             else Inl (AssertionFailed ''feedSize >= 0'')))"

text \<open>
  The loop runs as long as \<^verbatim>\<open>feedSize != 0\<close>. Each iteration consumes the answers of
  the collaborators for it; \<open>Unfinished\<close> is the state of a loop that would go on after
  the answers given.
\<close>

datatype FeedEnd = Finished LoopState | Unfinished LoopState

fun feedLoop :: "Env \<Rightarrow> int \<Rightarrow> int \<Rightarrow> FeedOracle list \<Rightarrow> LoopState \<Rightarrow> Error + FeedEnd" where
  "feedLoop env bits channels [] ls = Inr (Unfinished ls)"
| "feedLoop env bits channels (orc # orcs) ls =
     (case feedIteration env bits channels orc ls of
        Inl e \<Rightarrow> Inl e
      | Inr (brk, ls') \<Rightarrow>
          if brk then Inr (Finished ls')
          else if lsFeedSize ls' \<noteq> 0 then feedLoop env bits channels orcs ls'
          else Inr (Finished ls'))"

text \<open>What the mixer and the stream answer during one tick of one track.\<close>

record TickOracle =
  mixerHandleActive :: bool
  streamEndOfData :: bool
  feedOracles :: "FeedOracle list"

text \<open>Lines 326-433: the feed block of a track that is not a SOU stream.\<close>

definition startFeed :: "Env \<Rightarrow> int \<Rightarrow> int \<Rightarrow> TickOracle \<Rightarrow> LoopState \<Rightarrow> int \<Rightarrow> Error + FeedEnd" where
  "startFeed env bits channels orc ls fs =
     (if fs = 0 then Inr (Finished ls)
      else feedLoop env bits channels (feedOracles orc) (ls\<lparr>lsFeedSize := fs\<rparr>))"

definition feedBlock :: "Env \<Rightarrow> TickOracle \<Rightarrow> LoopState \<Rightarrow> Error + FeedEnd" where
  "feedBlock env orc ls0 =
     (if \<not> stream (lsTrack ls0) then Inl (AssertionFailed ''track->stream'') else
      let ls0' = ls0\<lparr>lsCurFeedSize := 0\<rparr>;
          entered = (if curRegion (lsTrack ls0') = - 1
                     then (case switchToNextRegion env (lsEngine ls0') (lsTrack ls0') of
                             Inl e \<Rightarrow> Inl e
                           | Inr r \<Rightarrow> Inr (applySwitch ls0' r))
                     else Inr ls0')
      in case entered of
           Inl e \<Rightarrow> Inl e
         | Inr ls \<Rightarrow>
             if curRegion (lsTrack ls0') = - 1 \<and> \<not> stream (lsTrack ls) then Inr (Finished ls)
             else
               (case soundDesc (lsTrack ls) of
                  None \<Rightarrow> Inl NullSoundDesc
                | Some sd \<Rightarrow>
                    (let bits = getBits sd;
                         channels = getChannels sd;
                         fs = cdiv (feedSize (lsTrack ls)) (callbackFps env);
                         fs1 = (if streamEndOfData orc then fs * 2 else fs)
                     in if bits = 12 \<or> bits = 16 then
                          (let fs2 = (if channels = 1 then fs1 AND NOT 1 else fs1);
                               fs3 = (if channels = 2 then fs2 AND NOT 3 else fs2)
                           in startFeed env bits channels orc ls fs3)
                        else if bits = 8 then
                          startFeed env bits channels orc ls
                            (if channels = 2 then fs1 AND NOT 1 else fs1)
                        else Inr (Finished ls))))"

subsection \<open>The body of the callback for one track\<close>

datatype TickEnd = TickReturn | TickEnd FeedEnd

text \<open>
  Lines 233-433 for one slot. \<open>TickReturn\<close> is the \<^verbatim>\<open>return\<close> of a paused engine. The
  push of volume and pan to the mixer (lines 434-474) changes no field of the track
  and is left out.
\<close>

definition callbackTrack :: "Env \<Rightarrow> bool \<Rightarrow> TickOracle \<Rightarrow> LoopState \<Rightarrow> Error + TickEnd" where
  "callbackTrack env speechIsPlaying orc ls =
     (let t = lsTrack ls in
      if \<not> used t then Inr (TickEnd (Finished ls))
      else if \<not> stream t then
        Inr (TickEnd (Finished
          (if \<not> mixerHandleActive orc then ls\<lparr>lsTrack := trackReset env t\<rparr> else ls)))
      else if pause (lsEngine ls) then Inr TickReturn
      else
        (case fadeHandling env t of
           Continue t' \<Rightarrow> Inr (TickEnd (Finished (ls\<lparr>lsTrack := t'\<rparr>)))
         | Proceed t1 \<Rightarrow>
             (let ls2 = ls\<lparr>lsTrack := gainReductionHandling env speechIsPlaying t1\<rparr> in
              if \<not> souStreamUsed (lsTrack ls2) then
                (case feedBlock env orc ls2 of
                   Inl e \<Rightarrow> Inl e
                 | Inr fe \<Rightarrow> Inr (TickEnd fe))
              else Inr (TickEnd (Finished ls2)))))"

subsection \<open>Loading the tracks (saveLoadEarly)\<close>

text \<open>
  Lines 159-214 for slot \<open>l\<close>. The argument is the track as
  \<^verbatim>\<open>reset()\<close> and \<^verbatim>\<open>syncWithSerializer\<close> left it; the result is the track and the
  warnings logged.
\<close>

definition reopenSound :: "Env \<Rightarrow> Track \<Rightarrow> SoundDesc option" where
  "reopenSound env t =
     (case openSound env (soundId t) (soundName t) (soundType t) (volGroupId t) (- 1) of
        Some sd \<Rightarrow> Some sd
      | None \<Rightarrow>
          (case openSound env (soundId t) (soundName t) (soundType t) (volGroupId t) 1 of
             Some sd \<Rightarrow> Some sd
           | None \<Rightarrow> openSound env (soundId t) (soundName t) (soundType t) (volGroupId t) 2))"

definition resumeTrack :: "Env \<Rightarrow> SoundDesc \<Rightarrow> Track \<Rightarrow> Error + Track" where
  "resumeTrack env sd t =
     (let t1 = (if gameId env = GID_CMI then t\<lparr>gainRedFadeDest := 127 * 290\<rparr> else t);
          t2 = (if gameId env = GID_FT then t1\<lparr>gainRedFadeDest := 127 * 180\<rparr> else t1);
          bits = getBits sd;
          channels = getChannels sd;
          freq = getFreq sd;
          t3 = t2\<lparr>sndDataExtComp := isSndDataExtComp sd,
                  dataOffset := getRegionOffset sd (curRegion t2),
                  feedSize := freq * channels,
                  mixerFlags := 0,
                  littleEndian := sdLittleEndian sd\<rparr>;
          t4 = (if channels = 2 then t3\<lparr>mixerFlags := kFlagStereo env\<rparr> else t3)
      in if bits = 12 \<or> bits = 16 then
           Inr (t4\<lparr>mixerFlags := mixerFlags t4 OR kFlag16Bits env,
                   feedSize := feedSize t4 * 2, stream := True\<rparr>)
         else if bits = 8 then
           Inr (t4\<lparr>mixerFlags := mixerFlags t4 OR kFlagUnsigned env, stream := True\<rparr>)
         else Inl (FatalError ''IMuseDigital::saveOrLoad(): Can't handle %d bit samples''))"

definition loadTrack :: "Env \<Rightarrow> int \<Rightarrow> Track \<Rightarrow> Error + (Track \<times> string list)" where
  "loadTrack env l t0 =
     (let t = t0\<lparr>trackId := l\<rparr> in
      if \<not> used t then Inr (t, [])
      else if toBeRemoved t \<or> souStreamUsed t \<or> curRegion t = - 1
      then Inr (t\<lparr>used := False\<rparr>, [])
      else
        (case reopenSound env t of
           None \<Rightarrow>
             Inr (t\<lparr>soundDesc := None, used := False\<rparr>,
                  [''IMuseDigital::saveOrLoad: Can't open sound so will not be resumed''])
         | Some sd \<Rightarrow>
             (case resumeTrack env sd (t\<lparr>soundDesc := Some sd\<rparr>) of
                Inl e \<Rightarrow> Inl e
              | Inr t' \<Rightarrow> Inr (t', []))))"

text \<open>The loop over the slots, from slot \<open>l\<close> on.\<close>

fun loadTracks :: "Env \<Rightarrow> int \<Rightarrow> Track list \<Rightarrow> Error + (Track list \<times> string list)" where
  "loadTracks env l [] = Inr ([], [])"
| "loadTracks env l (t # ts) =
     (case loadTrack env l t of
        Inl e \<Rightarrow> Inl e
      | Inr (t', ws) \<Rightarrow>
          (case loadTracks env (l + 1) ts of
             Inl e \<Rightarrow> Inl e
           | Inr (ts', ws') \<Rightarrow> Inr (t' # ts', ws @ ws')))"


subsection \<open>Runs of ticks and region switches\<close>

text \<open>
  Successive region-boundary events of one track. The callback visits a slot only while
  it is in use, so a released track is switched no further.
\<close>

fun switchRun :: "Env \<Rightarrow> Engine \<Rightarrow> nat \<Rightarrow> Track \<Rightarrow> Error + Track" where
  "switchRun env eng 0 t = Inr t"
| "switchRun env eng (Suc k) t =
     (if \<not> used t then Inr t
      else (case switchToNextRegion env eng t of
              Inl e \<Rightarrow> Inl e
            | Inr r \<Rightarrow> switchRun env (eng\<lparr>triggerUsed := swTriggerUsed r\<rparr>) k (swTrack r)))"


subsection \<open>Concrete instances\<close>

text \<open>
  A sound of \<open>n\<close> regions whose only jump sits at region 2 for hook 7 and leads to
  region 0 without a fade; a music track playing it; an engine with no pending trigger;
  and a game profile with the constants of dimuse.h, in which the identity stands in for
  the curve transforms and no fade slot or sound can be had.
\<close>

definition exSound :: "int \<Rightarrow> SoundDesc" where
  "exSound n =
     \<lparr>numRegions = n, numMarkers = 3,
      getRegionOffset = (\<lambda>r. 1000 * r),
      checkForTriggerByRegionAndMarker = (\<lambda>r m. False),
      getJumpIdByRegionAndHookId = (\<lambda>r h. if r = 2 \<and> h = 7 then 0 else - 1),
      getRegionIdByJumpId = (\<lambda>j. 0),
      getJumpHookId = (\<lambda>j. 7),
      getJumpFade = (\<lambda>j. 0),
      jumpDest = (\<lambda>j. 0),
      markerPos = (\<lambda>m. 0),
      markerPtr = (\<lambda>m. ''start''),
      getBits = 16, getChannels = 2, getFreq = 22050,
      sdLittleEndian = False, isSndDataExtComp = False\<rparr>"

definition exTrack :: Track where
  "exTrack =
     \<lparr>trackId = 0, pan = 64, vol = 127000, volFadeDest = 0, volFadeStep = 0,
      volFadeDelay = 0, volFadeUsed = False, gainReduction = 0, gainRedFadeDest = 0,
      gainRedFadeUsed = False, alreadyCrossfading = False, soundId = 100,
      soundName = ''music'', used = True, toBeRemoved = False, souStreamUsed = False,
      sndDataExtComp = False, soundPriority = 0, regionOffset = 0, dataOffset = 0,
      curRegion = 0, curHookId = 0, volGroupId = 3, soundType = 0, feedSize = 88200,
      dataMod12Bit = 0, mixerFlags = 0, littleEndian = False,
      soundDesc = Some (exSound 3), stream = True\<rparr>"

definition exEnv :: "GameId \<Rightarrow> Env" where
  "exEnv g =
     \<lparr>gameId = g, callbackFps = 10, MAX_DIGITAL_TRACKS = 8, MAX_DIGITAL_FADETRACKS = 8,
      kTalkSoundID = 10000, IMUSE_VOLGRP_MUSIC = 3,
      transformVolumeEqualPowToLinear = (\<lambda>v m. v),
      transformVolumeLinearToEqualPow = (\<lambda>v m. v),
      cloneToFadeOutTrack = (\<lambda>t d. None),
      handleFadeOut = (\<lambda>t d. t),
      trackReset = (\<lambda>t. t\<lparr>used := False\<rparr>),
      kFlagUnsigned = 1, kFlag16Bits = 2, kFlagStereo = 8,
      openSound = (\<lambda>i n ty g d. None)\<rparr>"

definition exEngine :: Engine where
  "exEngine =
     \<lparr>triggerUsed = False,
      triggerParams = \<lparr>marker = [], fadeOutDelay = 0, filename = [],
                       tpSoundId = 0, tpHookId = 0, tpVolume = 0\<rparr>,
      pause = False, radioChatterSFX = False\<rparr>"

definition exLoop :: "Track \<Rightarrow> LoopState" where
  "exLoop t =
     \<lparr>lsTrack = t, lsEngine = exEngine, lsFadeTracks = [], lsStartMusic = 0,
      lsFeedSize = 0, lsCurFeedSize = 0\<rparr>"


subsection \<open>Ranges and curves\<close>






text \<open>
  A concave curve on 0..127000 that fixes both ends, with slope 4 up to 12700 and slope
  2/3 above, truncated to integers as a conversion to \<^verbatim>\<open>int\<close> does, and its inverse. The
  two are monotone and inverse of each other up to rounding, which is what the
  specification requires of a fade curve. \<open>exEnvCurved\<close> is the game profile of \<open>exEnv\<close>
  with this curve for every curve id.
\<close>

definition exToEqualPow :: "int \<Rightarrow> int" where
  "exToEqualPow x =
     (if x \<le> 12700 then 4 * x
      else if x \<le> 127000 then 50800 + ((x - 12700) * 2) div 3
      else x)"

definition exToLinear :: "int \<Rightarrow> int" where
  "exToLinear v =
     (if v \<le> 50800 then v div 4
      else if v \<le> 127000 then 12700 + ((v - 50800) * 3) div 2
      else v)"


section \<open>Properties\<close>

subsection \<open>Fade stepping\<close>











lemma exCurve_mono: "mono exToEqualPow" "mono exToLinear"
  unfolding mono_def exToEqualPow_def exToLinear_def by (auto; linarith)+

lemma exCurve_round_trip:
  "\<bar>exToLinear (exToEqualPow x) - x\<bar> \<le> 1"
  "\<bar>exToEqualPow (exToLinear v) - v\<bar> \<le> 3"
  "exToEqualPow 0 = 0" "exToEqualPow 127000 = 127000"
  unfolding exToEqualPow_def exToLinear_def by (auto; linarith)+










subsection \<open>Release at the end of a fade-out\<close>

lemma fadeHandling_out_reached:
  assumes "volFadeUsed t" "volFadeStep t < 0" "volFadeDest t < vol t"
    and "fadeOutStep env t \<le> volFadeDest t"
  shows "fadeHandling env t =
           (if gameId env = GID_CMI \<or> volFadeDest t = 0
            then Continue (flushTrack (t\<lparr>vol := volFadeDest t, volFadeUsed := False\<rparr>))
            else Proceed (t\<lparr>vol := volFadeDest t, volFadeUsed := False\<rparr>))"
  using assms by (simp add: fadeHandling_def Let_def)

lemma callbackTrack_Continue:
  assumes "used (lsTrack ls)" "stream (lsTrack ls)" "\<not> pause (lsEngine ls)"
    and "fadeHandling env (lsTrack ls) = Continue t'"
  shows "callbackTrack env sp orc ls = Inr (TickEnd (Finished (ls\<lparr>lsTrack := t'\<rparr>)))"
  using assms by (simp add: callbackTrack_def Let_def)

text \<open>
  Claim C3, as the code has it. When the tick of a fade-out reaches its destination (the
  stepped volume is at or below \<open>volFadeDest\<close>), the volume is set to the destination and
  the fade ends; the track is flushed at once, and the rest of the tick's body is skipped
  for it, when the destination is zero or the game is CMI, where every fade-out that
  reaches its destination releases the track. In the other variants a fade-out that
  reaches a destination other than zero leaves the track in use at that volume.
\<close>

theorem C3_release_on_fade_out:
  assumes "volFadeUsed t" "volFadeStep t < 0" "volFadeDest t < vol t"
    and "fadeOutStep env t \<le> volFadeDest t"
  shows "fadeHandling env t =
           (if gameId env = GID_CMI \<or> volFadeDest t = 0
            then Continue (flushTrack (t\<lparr>vol := volFadeDest t, volFadeUsed := False\<rparr>))
            else Proceed (t\<lparr>vol := volFadeDest t, volFadeUsed := False\<rparr>))
       \<and> \<not> used (flushTrack (t\<lparr>vol := volFadeDest t, volFadeUsed := False\<rparr>))
       \<and> used (t\<lparr>vol := volFadeDest t, volFadeUsed := False\<rparr>) = used t
       \<and> ((gameId env = GID_CMI \<or> volFadeDest t = 0) \<and> lsTrack ls = t \<and>
            used t \<and> stream t \<and> \<not> pause (lsEngine ls) \<longrightarrow>
            callbackTrack env sp orc ls =
              Inr (TickEnd (Finished
                (ls\<lparr>lsTrack := flushTrack (t\<lparr>vol := volFadeDest t, volFadeUsed := False\<rparr>)\<rparr>))))"
proof -
  have fh: "fadeHandling env t =
           (if gameId env = GID_CMI \<or> volFadeDest t = 0
            then Continue (flushTrack (t\<lparr>vol := volFadeDest t, volFadeUsed := False\<rparr>))
            else Proceed (t\<lparr>vol := volFadeDest t, volFadeUsed := False\<rparr>))"
    using assms by (rule fadeHandling_out_reached)
  have cb: "callbackTrack env sp orc ls =
              Inr (TickEnd (Finished
                (ls\<lparr>lsTrack := flushTrack (t\<lparr>vol := volFadeDest t, volFadeUsed := False\<rparr>)\<rparr>)))"
    if "gameId env = GID_CMI \<or> volFadeDest t = 0" "lsTrack ls = t"
       "used t" "stream t" "\<not> pause (lsEngine ls)"
  proof -
    have "fadeHandling env (lsTrack ls) =
            Continue (flushTrack (t\<lparr>vol := volFadeDest t, volFadeUsed := False\<rparr>))"
      using fh that by auto
    then show ?thesis using that by (intro callbackTrack_Continue) simp_all
  qed
  show ?thesis using fh cb by (simp add: flushTrack_def)
qed

text \<open>
  The Dig: a fade-out that reaches 0 releases the track in that tick, one that reaches
  1000 leaves it in use at 1000; and the fade of 5000 to 0 in steps of 1000 has released
  its track after five ticks.
\<close>

theorem C3_release_on_fade_out_witness:
  "fadeHandling (exEnv GID_DIG)
     (exTrack\<lparr>vol := 1000, volFadeDest := 0, volFadeStep := - 1000, volFadeUsed := True\<rparr>)
     = Continue (flushTrack (exTrack\<lparr>vol := 0, volFadeDest := 0, volFadeStep := - 1000,
                                     volFadeUsed := False\<rparr>))
   \<and> fadeHandling (exEnv GID_DIG)
     (exTrack\<lparr>vol := 2000, volFadeDest := 1000, volFadeStep := - 1000, volFadeUsed := True\<rparr>)
     = Proceed (exTrack\<lparr>vol := 1000, volFadeDest := 1000, volFadeStep := - 1000,
                        volFadeUsed := False\<rparr>)
   \<and> callbackTrack (exEnv GID_DIG) False
        \<lparr>mixerHandleActive = True, streamEndOfData = False, feedOracles = []\<rparr>
        (exLoop (exTrack\<lparr>vol := 1000, volFadeDest := 0, volFadeStep := - 1000,
                         volFadeUsed := True\<rparr>))
     = Inr (TickEnd (Finished (exLoop (flushTrack
         (exTrack\<lparr>vol := 0, volFadeDest := 0, volFadeStep := - 1000, volFadeUsed := False\<rparr>)))))
   \<and> fadeRun (exEnv GID_DIG) 5
        (exTrack\<lparr>vol := 5000, volFadeDest := 0, volFadeStep := - 1000, volFadeUsed := True\<rparr>)
     = Continue (flushTrack
         (exTrack\<lparr>vol := 0, volFadeDest := 0, volFadeStep := - 1000, volFadeUsed := False\<rparr>))"
proof -
  let ?a = "exTrack\<lparr>vol := 1000, volFadeDest := 0, volFadeStep := - 1000, volFadeUsed := True\<rparr>"
  let ?b = "exTrack\<lparr>vol := 2000, volFadeDest := 1000, volFadeStep := - 1000, volFadeUsed := True\<rparr>"
  let ?orc = "\<lparr>mixerHandleActive = True, streamEndOfData = False, feedOracles = []\<rparr>"
  have a: "volFadeUsed ?a" "volFadeStep ?a < 0" "volFadeDest ?a < vol ?a"
    "fadeOutStep (exEnv GID_DIG) ?a \<le> volFadeDest ?a"
    by (simp_all add: fadeOutStep_def exEnv_def)
  have b: "volFadeUsed ?b" "volFadeStep ?b < 0" "volFadeDest ?b < vol ?b"
    "fadeOutStep (exEnv GID_DIG) ?b \<le> volFadeDest ?b"
    by (simp_all add: fadeOutStep_def exEnv_def)
  have side: "lsTrack (exLoop ?a) = ?a" "used ?a" "stream ?a" "\<not> pause (lsEngine (exLoop ?a))"
    by (simp_all add: exLoop_def exTrack_def exEngine_def)
  have run: "fadeRun (exEnv GID_DIG) 5
        (exTrack\<lparr>vol := 5000, volFadeDest := 0, volFadeStep := - 1000, volFadeUsed := True\<rparr>)
     = Continue (flushTrack
         (exTrack\<lparr>vol := 0, volFadeDest := 0, volFadeStep := - 1000, volFadeUsed := False\<rparr>))"
    by (simp add: eval_nat_numeral fadeHandling_def fadeOutStep_def exEnv_def exTrack_def
          flushTrack_def Let_def)
  show ?thesis
    using C3_release_on_fade_out[OF a, of "exLoop ?a" False ?orc]
      C3_release_on_fade_out[OF b, of "exLoop ?b" False ?orc] side run
    by (simp add: exEnv_def exLoop_def exTrack_def flushTrack_def)
qed

text \<open>
  Claim C3 as stated lets a fade-out to a volume other than zero keep its track. In CMI
  the fade-out of 5000 to 1000 releases the track in the tick that reaches 1000.
\<close>

theorem C3_counterexample:
  "fadeHandling (exEnv GID_CMI)
     (exTrack\<lparr>vol := 5000, volFadeDest := 1000, volFadeStep := - 5000, volFadeUsed := True\<rparr>)
     = Continue (flushTrack (exTrack\<lparr>vol := 1000, volFadeDest := 1000, volFadeStep := - 5000,
                                     volFadeUsed := False\<rparr>))
   \<and> \<not> used (flushTrack (exTrack\<lparr>vol := 1000, volFadeDest := 1000, volFadeStep := - 5000,
                                   volFadeUsed := False\<rparr>))"
  by (simp add: fadeHandling_def fadeOutStep_def exEnv_def flushTrack_def Let_def)

subsection \<open>Ducking\<close>










subsection \<open>Region switches\<close>

lemma switch_advance:
  assumes "trackId t < MAX_DIGITAL_TRACKS env" "soundDesc t = Some sd"
    and "\<forall>r h. getJumpIdByRegionAndHookId sd r h = - 1"
    and "\<not> triggerUsed eng \<or> numMarkers sd = 0 \<or>
         (\<forall>r. \<not> checkForTriggerByRegionAndMarker sd r (marker (triggerParams eng)))"
    and "curRegion t + 1 \<noteq> numRegions sd"
  shows "switchToNextRegion env eng t =
           Inr \<lparr>swTrack = t\<lparr>curRegion := curRegion t + 1,
                             dataOffset := getRegionOffset sd (curRegion t + 1),
                             regionOffset := 0\<rparr>,
                swFadeTrack = None, swStartMusic = False, swTriggerUsed = triggerUsed eng\<rparr>"
  using assms
  by (auto simp add: switchToNextRegion_def jumpOrAdvance_def selectRegion_def Let_def)

lemma switch_last:
  assumes "trackId t < MAX_DIGITAL_TRACKS env" "soundDesc t = Some sd"
    and "curRegion t + 1 = numRegions sd"
  shows "switchToNextRegion env eng t =
           Inr \<lparr>swTrack = flushTrack (t\<lparr>curRegion := numRegions sd\<rparr>),
                swFadeTrack = None, swStartMusic = False, swTriggerUsed = triggerUsed eng\<rparr>"
  using assms by (simp add: switchToNextRegion_def)

lemma switchRun_unused: "\<not> used t \<Longrightarrow> switchRun env eng k t = Inr t"
  by (cases k) simp_all

lemma switchRun_regions:
  assumes "trackId t < MAX_DIGITAL_TRACKS env" "soundDesc t = Some sd"
    and "\<forall>r h. getJumpIdByRegionAndHookId sd r h = - 1"
    and "\<not> triggerUsed eng \<or> numMarkers sd = 0 \<or>
         (\<forall>r. \<not> checkForTriggerByRegionAndMarker sd r (marker (triggerParams eng)))"
    and "used t" "curRegion t < numRegions sd"
  shows "\<exists>t'. switchRun env eng k t = Inr t' \<and>
           (if int k < numRegions sd - curRegion t
            then used t' \<and> curRegion t' = curRegion t + int k
            else \<not> used t')"
  using assms
proof (induction k arbitrary: t)
  case 0
  then show ?case by simp
next
  case (Suc k)
  show ?case
  proof (cases "curRegion t + 1 = numRegions sd")
    case True
    have "switchRun env eng (Suc k) t = Inr (flushTrack (t\<lparr>curRegion := numRegions sd\<rparr>))"
      using Suc.prems True switch_last[of t env sd eng]
      by (simp add: switchRun_unused flushTrack_def)
    then show ?thesis using True by (simp add: flushTrack_def)
  next
    case False
    let ?t1 = "t\<lparr>curRegion := curRegion t + 1,
                   dataOffset := getRegionOffset sd (curRegion t + 1), regionOffset := 0\<rparr>"
    have run: "switchRun env eng (Suc k) t = switchRun env eng k ?t1"
      using Suc.prems False switch_advance[of t env sd eng] by simp
    have "\<exists>t'. switchRun env eng k ?t1 = Inr t' \<and>
           (if int k < numRegions sd - curRegion ?t1
            then used t' \<and> curRegion t' = curRegion ?t1 + int k
            else \<not> used t')"
      using Suc.prems False by (intro Suc.IH) simp_all
    then have "\<exists>t'. switchRun env eng k ?t1 = Inr t' \<and>
           (if int (Suc k) < numRegions sd - curRegion t
            then used t' \<and> curRegion t' = curRegion t + int (Suc k)
            else \<not> used t')"
      by (auto simp add: algebra_simps split: if_splits)
    then show ?thesis by (simp only: run)
  qed
qed

text \<open>
  Claim C2, as the code has it. The jump table is consulted for the region the track
  enters, \<open>curRegion + 1\<close>, and only when that is not past the last region. For a track in
  a regular slot with no pending trigger found there (in CMI the track must be neither
  to be removed nor already crossfading): when the table has an entry for the region
  entered and the track's hook, the entry's hook id equals \<open>curHookId\<close>, and the fade
  delay \<open>60 * fade / 1000\<close> is zero (in CMI whatever the delay), then \<open>curRegion\<close> becomes
  the jump's destination region, \<open>curHookId\<close> and \<open>regionOffset\<close> become 0, \<open>dataOffset\<close>
  becomes the offset of the destination region, and no track is allocated.
\<close>

theorem C2_zero_delay_jump:
  assumes "trackId t < MAX_DIGITAL_TRACKS env"
    and "soundDesc t = Some sd"
    and "curRegion t + 1 \<noteq> numRegions sd"
    and "\<not> (triggerUsed eng \<and> numMarkers sd \<noteq> 0 \<and>
            checkForTriggerByRegionAndMarker sd (curRegion t + 1) (marker (triggerParams eng)))"
    and "getJumpIdByRegionAndHookId sd (curRegion t + 1) (curHookId t) = j"
    and "j \<noteq> - 1"
    and "gameId env = GID_CMI \<longrightarrow> \<not> toBeRemoved t \<and> \<not> alreadyCrossfading t"
    and "getRegionIdByJumpId sd j \<noteq> - 1"
    and "getJumpHookId sd j = curHookId t"
    and "curHookId t \<noteq> - 1"
    and "gameId env \<noteq> GID_CMI \<longrightarrow> cdiv (60 * getJumpFade sd j) 1000 = 0"
  shows "switchToNextRegion env eng t =
           Inr \<lparr>swTrack = t\<lparr>curRegion := getRegionIdByJumpId sd j, curHookId := 0,
                             dataOffset := getRegionOffset sd (getRegionIdByJumpId sd j),
                             regionOffset := 0\<rparr>,
                swFadeTrack = None, swStartMusic = False, swTriggerUsed = triggerUsed eng\<rparr>"
  using assms
  by (auto simp add: switchToNextRegion_def jumpOrAdvance_def selectRegion_def Let_def)

text \<open>
  A sound of four regions with the jump for hook 7 at region 2: the track that exhausts
  region 1 with hook 7 goes to region 0.
\<close>

theorem C2_zero_delay_jump_witness:
  "switchToNextRegion (exEnv GID_DIG) exEngine
     (exTrack\<lparr>soundDesc := Some (exSound 4), curRegion := 1, curHookId := 7,
              regionOffset := 640, dataOffset := 1000\<rparr>)
   = Inr \<lparr>swTrack = exTrack\<lparr>soundDesc := Some (exSound 4), curRegion := 0, curHookId := 0,
                             regionOffset := 0, dataOffset := 0\<rparr>,
          swFadeTrack = None, swStartMusic = False, swTriggerUsed = False\<rparr>"
proof -
  let ?t = "exTrack\<lparr>soundDesc := Some (exSound 4), curRegion := 1, curHookId := 7,
              regionOffset := 640, dataOffset := 1000\<rparr>"
  have "switchToNextRegion (exEnv GID_DIG) exEngine ?t =
           Inr \<lparr>swTrack = ?t\<lparr>curRegion := getRegionIdByJumpId (exSound 4) 0, curHookId := 0,
                             dataOffset := getRegionOffset (exSound 4) (getRegionIdByJumpId (exSound 4) 0),
                             regionOffset := 0\<rparr>,
                swFadeTrack = None, swStartMusic = False, swTriggerUsed = triggerUsed exEngine\<rparr>"
    by (rule C2_zero_delay_jump)
       (simp_all add: exEnv_def exTrack_def exSound_def exEngine_def cdiv_def)
  then show ?thesis by (simp add: exSound_def exEngine_def exTrack_def)
qed

text \<open>
  Claim C2 as stated is Scenario C: region 2 of a sound of three regions has the jump for
  hook 7 to region 0. The track that exhausts region 2 with hook 7 is past the last
  region: it is released with \<open>curRegion = 3\<close> and its hook still 7. With a fourth
  region after it, the same track goes on in region 3 and keeps its hook: the jump of
  region 2 is for the track that enters region 2.
\<close>

theorem C2_counterexample:
  "switchToNextRegion (exEnv GID_DIG) exEngine
     (exTrack\<lparr>soundDesc := Some (exSound 3), curRegion := 2, curHookId := 7\<rparr>)
   = Inr \<lparr>swTrack = flushTrack (exTrack\<lparr>soundDesc := Some (exSound 3), curRegion := 3,
                                         curHookId := 7\<rparr>),
          swFadeTrack = None, swStartMusic = False, swTriggerUsed = False\<rparr>
   \<and> getJumpIdByRegionAndHookId (exSound 3) 2 7 = 0
   \<and> getRegionIdByJumpId (exSound 3) 0 = 0
   \<and> \<not> used (flushTrack (exTrack\<lparr>soundDesc := Some (exSound 3), curRegion := 3,
                                   curHookId := 7\<rparr>))
   \<and> switchToNextRegion (exEnv GID_DIG) exEngine
     (exTrack\<lparr>soundDesc := Some (exSound 4), curRegion := 2, curHookId := 7\<rparr>)
   = Inr \<lparr>swTrack = exTrack\<lparr>soundDesc := Some (exSound 4), curRegion := 3, curHookId := 7,
                             dataOffset := 3000\<rparr>,
          swFadeTrack = None, swStartMusic = False, swTriggerUsed = False\<rparr>"
  by (simp add: switchToNextRegion_def jumpOrAdvance_def selectRegion_def exEnv_def exTrack_def
        exSound_def exEngine_def flushTrack_def Let_def)

text \<open>
  Claim C4. A track in a regular slot, in use, whose sound has \<open>N\<close> regions, no jump-table
  entry and no trigger that matches: a region-boundary event advances \<open>curRegion\<close> by
  exactly one (and selects the new region) unless that makes it \<open>N\<close>, in which case the
  track is flushed. Over successive events the track stays in use with \<open>curRegion\<close> advanced
  by one per event for the first \<open>N - curRegion - 1\<close> events, and is released by the next
  one; whenever it is in use, \<open>curRegion \<le> N - 1\<close>.
\<close>

theorem C4_region_exhaustion_terminates:
  assumes "trackId t < MAX_DIGITAL_TRACKS env" "soundDesc t = Some sd"
    and "\<forall>r h. getJumpIdByRegionAndHookId sd r h = - 1"
    and "\<not> triggerUsed eng \<or> numMarkers sd = 0 \<or>
         (\<forall>r. \<not> checkForTriggerByRegionAndMarker sd r (marker (triggerParams eng)))"
    and "used t" "curRegion t < numRegions sd"
  shows "(curRegion t + 1 \<noteq> numRegions sd \<longrightarrow>
            switchToNextRegion env eng t =
              Inr \<lparr>swTrack = t\<lparr>curRegion := curRegion t + 1,
                                dataOffset := getRegionOffset sd (curRegion t + 1),
                                regionOffset := 0\<rparr>,
                   swFadeTrack = None, swStartMusic = False, swTriggerUsed = triggerUsed eng\<rparr>)
       \<and> (curRegion t + 1 = numRegions sd \<longrightarrow>
            switchToNextRegion env eng t =
              Inr \<lparr>swTrack = flushTrack (t\<lparr>curRegion := numRegions sd\<rparr>),
                   swFadeTrack = None, swStartMusic = False, swTriggerUsed = triggerUsed eng\<rparr>
            \<and> \<not> used (flushTrack (t\<lparr>curRegion := numRegions sd\<rparr>)))
       \<and> (\<forall>k. \<exists>t'. switchRun env eng k t = Inr t' \<and>
             (if int k < numRegions sd - curRegion t
              then used t' \<and> curRegion t' = curRegion t + int k
              else \<not> used t') \<and>
             (used t' \<longrightarrow> curRegion t' \<le> numRegions sd - 1))"
proof (intro conjI allI impI)
  fix k
  obtain t' where t': "switchRun env eng k t = Inr t'"
    "if int k < numRegions sd - curRegion t
     then used t' \<and> curRegion t' = curRegion t + int k else \<not> used t'"
    using switchRun_regions[OF assms, of k] by blast
  have "used t' \<longrightarrow> curRegion t' \<le> numRegions sd - 1"
    using t'(2) by (auto split: if_splits)
  then show "\<exists>t'. switchRun env eng k t = Inr t' \<and>
             (if int k < numRegions sd - curRegion t
              then used t' \<and> curRegion t' = curRegion t + int k
              else \<not> used t') \<and>
             (used t' \<longrightarrow> curRegion t' \<le> numRegions sd - 1)"
    using t' by blast
next
  show "\<not> used (flushTrack (t\<lparr>curRegion := numRegions sd\<rparr>))"
    by (simp add: flushTrack_def)
qed (use assms switch_advance[of t env sd eng] switch_last[of t env sd eng] in simp_all)

text \<open>
  A sound of three regions without jumps, started at \<open>curRegion = -1\<close>: the first event
  enters region 0, the third leaves the track in use in region 2, the fourth releases it.
\<close>

theorem C4_region_exhaustion_terminates_witness:
  "switchToNextRegion (exEnv GID_DIG) exEngine
     (exTrack\<lparr>soundDesc := Some ((exSound 3)\<lparr>getJumpIdByRegionAndHookId := (\<lambda>r h. - 1)\<rparr>),
              curRegion := - 1\<rparr>)
   = Inr \<lparr>swTrack =
            exTrack\<lparr>soundDesc := Some ((exSound 3)\<lparr>getJumpIdByRegionAndHookId := (\<lambda>r h. - 1)\<rparr>),
                    curRegion := 0\<rparr>,
          swFadeTrack = None, swStartMusic = False, swTriggerUsed = False\<rparr>
   \<and> (\<exists>t'. switchRun (exEnv GID_DIG) exEngine 3
        (exTrack\<lparr>soundDesc := Some ((exSound 3)\<lparr>getJumpIdByRegionAndHookId := (\<lambda>r h. - 1)\<rparr>),
                 curRegion := - 1\<rparr>) = Inr t' \<and> used t' \<and> curRegion t' = 2)
   \<and> (\<exists>t'. switchRun (exEnv GID_DIG) exEngine 4
        (exTrack\<lparr>soundDesc := Some ((exSound 3)\<lparr>getJumpIdByRegionAndHookId := (\<lambda>r h. - 1)\<rparr>),
                 curRegion := - 1\<rparr>) = Inr t' \<and> \<not> used t')"
proof -
  let ?sd = "(exSound 3)\<lparr>getJumpIdByRegionAndHookId := (\<lambda>r h. - 1)\<rparr>"
  let ?t = "exTrack\<lparr>soundDesc := Some ?sd, curRegion := - 1\<rparr>"
  have h: "trackId ?t < MAX_DIGITAL_TRACKS (exEnv GID_DIG)" "soundDesc ?t = Some ?sd"
    "\<forall>r h. getJumpIdByRegionAndHookId ?sd r h = - 1"
    "\<not> triggerUsed exEngine \<or> numMarkers ?sd = 0 \<or>
      (\<forall>r. \<not> checkForTriggerByRegionAndMarker ?sd r (marker (triggerParams exEngine)))"
    "used ?t" "curRegion ?t < numRegions ?sd"
    by (simp_all add: exEnv_def exTrack_def exSound_def exEngine_def)
  note c4 = C4_region_exhaustion_terminates[OF h]
  have a: "switchToNextRegion (exEnv GID_DIG) exEngine ?t =
     Inr \<lparr>swTrack = exTrack\<lparr>soundDesc := Some ?sd, curRegion := 0\<rparr>,
          swFadeTrack = None, swStartMusic = False, swTriggerUsed = False\<rparr>"
    using c4 by (simp add: exSound_def exTrack_def exEngine_def)
  have b: "\<exists>t'. switchRun (exEnv GID_DIG) exEngine 3 ?t = Inr t' \<and> used t' \<and> curRegion t' = 2"
    using c4[THEN conjunct2, THEN conjunct2, THEN spec, of 3] by (auto simp add: exSound_def)
  have c: "\<exists>t'. switchRun (exEnv GID_DIG) exEngine 4 ?t = Inr t' \<and> \<not> used t'"
    using c4[THEN conjunct2, THEN conjunct2, THEN spec, of 4] by (auto simp add: exSound_def)
  show ?thesis using a b c by blast
qed

text \<open>
  Claim C6. For a track in a fade slot (\<open>trackId \<ge> MAX_DIGITAL_TRACKS\<close>)
  \<^verbatim>\<open>switchToNextRegion\<close> does nothing but flush the track: whatever the sound, the pending
  trigger and the jump table are, the track is released with its region and hook as
  they were, no fade track is allocated, no music is started and the trigger stays
  as it was.
\<close>

theorem C6_fade_track_never_advances:
  assumes "MAX_DIGITAL_TRACKS env \<le> trackId t"
  shows "switchToNextRegion env eng t =
           Inr \<lparr>swTrack = flushTrack t, swFadeTrack = None, swStartMusic = False,
                swTriggerUsed = triggerUsed eng\<rparr>
       \<and> \<not> used (flushTrack t)
       \<and> curRegion (flushTrack t) = curRegion t
       \<and> curHookId (flushTrack t) = curHookId t
       \<and> regionOffset (flushTrack t) = regionOffset t
       \<and> dataOffset (flushTrack t) = dataOffset t"
  using assms by (simp add: switchToNextRegion_def flushTrack_def)

text \<open>Slot 8 of 8 regular slots, about to match the jump of hook 7: flushed, region 1 kept.\<close>

theorem C6_fade_track_never_advances_witness:
  "MAX_DIGITAL_TRACKS (exEnv GID_DIG) \<le>
     trackId (exTrack\<lparr>trackId := 8, soundDesc := Some (exSound 4), curRegion := 1, curHookId := 7\<rparr>)
   \<and> switchToNextRegion (exEnv GID_DIG) exEngine
       (exTrack\<lparr>trackId := 8, soundDesc := Some (exSound 4), curRegion := 1, curHookId := 7\<rparr>)
     = Inr \<lparr>swTrack = flushTrack
              (exTrack\<lparr>trackId := 8, soundDesc := Some (exSound 4), curRegion := 1, curHookId := 7\<rparr>),
            swFadeTrack = None, swStartMusic = False, swTriggerUsed = False\<rparr>
   \<and> curRegion (flushTrack
        (exTrack\<lparr>trackId := 8, soundDesc := Some (exSound 4), curRegion := 1, curHookId := 7\<rparr>)) = 1"
proof -
  let ?t = "exTrack\<lparr>trackId := 8, soundDesc := Some (exSound 4), curRegion := 1, curHookId := 7\<rparr>"
  have h: "MAX_DIGITAL_TRACKS (exEnv GID_DIG) \<le> trackId ?t" by (simp add: exEnv_def)
  show ?thesis
    using C6_fade_track_never_advances[OF h, of exEngine] h by (simp add: exEngine_def)
qed

lemma stricmp_Start: "scumm_stricmp_eq ''Start'' ''start''"
  by code_simp

lemma stricmp_start: "scumm_stricmp_eq ''start'' ''start''"
  by (simp add: scumm_stricmp_eq_def)

lemma stricmp_loop: "\<not> scumm_stricmp_eq ''loop'' ''start''"
  by code_simp

text \<open>
  Claim C7, as the code has it. For a track in a regular slot that enters a region
  (not past the last one, no pending trigger found there; in CMI the track neither to be
  removed nor already crossfading) whose jump-table entry has a hook id other than the
  track's \<open>curHookId\<close>: the track goes on in the region entered, \<open>curRegion + 1\<close>, except in
  CMI when the jump's destination is the position of the sound's marker 2 and that marker
  is named "start" (in any case of letters); then the jump's destination region is
  selected. In both cases \<open>curHookId\<close> is left as it is. In the other variants the jump
  is never enforced.
\<close>

theorem C7_start_marker_enforced:
  assumes "trackId t < MAX_DIGITAL_TRACKS env"
    and "soundDesc t = Some sd"
    and "curRegion t + 1 \<noteq> numRegions sd"
    and "\<not> (triggerUsed eng \<and> numMarkers sd \<noteq> 0 \<and>
            checkForTriggerByRegionAndMarker sd (curRegion t + 1) (marker (triggerParams eng)))"
    and "getJumpIdByRegionAndHookId sd (curRegion t + 1) (curHookId t) = j"
    and "j \<noteq> - 1"
    and "gameId env = GID_CMI \<longrightarrow> \<not> toBeRemoved t \<and> \<not> alreadyCrossfading t"
    and "getRegionIdByJumpId sd j \<noteq> - 1"
    and "getJumpHookId sd j \<noteq> - 1"
    and "getJumpHookId sd j \<noteq> curHookId t"
  shows "switchToNextRegion env eng t =
           Inr \<lparr>swTrack =
                  (if gameId env = GID_CMI \<and> jumpDest sd j = markerPos sd 2 \<and>
                      scumm_stricmp_eq (markerPtr sd 2) ''start''
                   then t\<lparr>curRegion := getRegionIdByJumpId sd j,
                          dataOffset := getRegionOffset sd (getRegionIdByJumpId sd j),
                          regionOffset := 0\<rparr>
                   else t\<lparr>curRegion := curRegion t + 1,
                          dataOffset := getRegionOffset sd (curRegion t + 1),
                          regionOffset := 0\<rparr>),
                swFadeTrack = None, swStartMusic = False, swTriggerUsed = triggerUsed eng\<rparr>"
  using assms
  by (auto simp add: switchToNextRegion_def jumpOrAdvance_def selectRegion_def
        isJumpToStart_def Let_def)

text \<open>
  CMI, a sound whose region 2 has a jump of hook 7 to region 0, the position of marker 2,
  named "Start": the track that enters region 2 with hook 5 is sent to region 0 and keeps
  its hook.
\<close>

theorem C7_start_marker_enforced_witness:
  "switchToNextRegion (exEnv GID_CMI) exEngine
     (exTrack\<lparr>soundDesc := Some ((exSound 4)\<lparr>getJumpIdByRegionAndHookId :=
                   (\<lambda>r h. if r = 2 then 0 else - 1), markerPtr := (\<lambda>m. ''Start'')\<rparr>),
              curRegion := 1, curHookId := 5, dataOffset := 1000\<rparr>)
   = Inr \<lparr>swTrack =
            exTrack\<lparr>soundDesc := Some ((exSound 4)\<lparr>getJumpIdByRegionAndHookId :=
                   (\<lambda>r h. if r = 2 then 0 else - 1), markerPtr := (\<lambda>m. ''Start'')\<rparr>),
              curRegion := 0, curHookId := 5, dataOffset := 0\<rparr>,
          swFadeTrack = None, swStartMusic = False, swTriggerUsed = False\<rparr>"
proof -
  let ?sd = "(exSound 4)\<lparr>getJumpIdByRegionAndHookId :=
                   (\<lambda>r h. if r = 2 then 0 else - 1), markerPtr := (\<lambda>m. ''Start'')\<rparr>"
  let ?t = "exTrack\<lparr>soundDesc := Some ?sd, curRegion := 1, curHookId := 5, dataOffset := 1000\<rparr>"
  have "switchToNextRegion (exEnv GID_CMI) exEngine ?t =
           Inr \<lparr>swTrack =
                  (if gameId (exEnv GID_CMI) = GID_CMI \<and> jumpDest ?sd 0 = markerPos ?sd 2 \<and>
                      scumm_stricmp_eq (markerPtr ?sd 2) ''start''
                   then ?t\<lparr>curRegion := getRegionIdByJumpId ?sd 0,
                          dataOffset := getRegionOffset ?sd (getRegionIdByJumpId ?sd 0),
                          regionOffset := 0\<rparr>
                   else ?t\<lparr>curRegion := curRegion ?t + 1,
                          dataOffset := getRegionOffset ?sd (curRegion ?t + 1),
                          regionOffset := 0\<rparr>),
                swFadeTrack = None, swStartMusic = False, swTriggerUsed = triggerUsed exEngine\<rparr>"
    by (rule C7_start_marker_enforced)
       (simp_all add: exEnv_def exTrack_def exSound_def exEngine_def)
  then show ?thesis
    by (simp add: exEnv_def exSound_def exEngine_def exTrack_def stricmp_Start)
qed

text \<open>
  Claim C7 as stated enforces the jump to a destination marked "start" in every variant
  and for any marker. In Full Throttle the track of the witness goes on in region 2; and
  in CMI it does so too when the "start" marker at the destination is marker 0 and
  marker 2 has another name.
\<close>

theorem C7_counterexample:
  "switchToNextRegion (exEnv GID_FT) exEngine
     (exTrack\<lparr>soundDesc := Some ((exSound 4)\<lparr>getJumpIdByRegionAndHookId :=
                   (\<lambda>r h. if r = 2 then 0 else - 1)\<rparr>),
              curRegion := 1, curHookId := 5, dataOffset := 1000\<rparr>)
   = Inr \<lparr>swTrack =
            exTrack\<lparr>soundDesc := Some ((exSound 4)\<lparr>getJumpIdByRegionAndHookId :=
                   (\<lambda>r h. if r = 2 then 0 else - 1)\<rparr>),
              curRegion := 2, curHookId := 5, dataOffset := 2000\<rparr>,
          swFadeTrack = None, swStartMusic = False, swTriggerUsed = False\<rparr>
   \<and> switchToNextRegion (exEnv GID_CMI) exEngine
     (exTrack\<lparr>soundDesc := Some ((exSound 4)\<lparr>getJumpIdByRegionAndHookId :=
                   (\<lambda>r h. if r = 2 then 0 else - 1),
                   markerPtr := (\<lambda>m. if m = 0 then ''start'' else ''loop'')\<rparr>),
              curRegion := 1, curHookId := 5, dataOffset := 1000\<rparr>)
   = Inr \<lparr>swTrack =
            exTrack\<lparr>soundDesc := Some ((exSound 4)\<lparr>getJumpIdByRegionAndHookId :=
                   (\<lambda>r h. if r = 2 then 0 else - 1),
                   markerPtr := (\<lambda>m. if m = 0 then ''start'' else ''loop'')\<rparr>),
              curRegion := 2, curHookId := 5, dataOffset := 2000\<rparr>,
          swFadeTrack = None, swStartMusic = False, swTriggerUsed = False\<rparr>"
  by (simp add: switchToNextRegion_def jumpOrAdvance_def selectRegion_def isJumpToStart_def
        exEnv_def exSound_def exEngine_def exTrack_def stricmp_start stricmp_loop Let_def)

subsection \<open>Loading\<close>

lemma loadTracks_append:
  "loadTracks env l (xs @ ys) =
     (case loadTracks env l xs of
        Inl e \<Rightarrow> Inl e
      | Inr (xs', w1) \<Rightarrow>
          (case loadTracks env (l + int (length xs)) ys of
             Inl e \<Rightarrow> Inl e
           | Inr (ys', w2) \<Rightarrow> Inr (xs' @ ys', w1 @ w2)))"
  by (induction xs arbitrary: l) (auto simp add: algebra_simps split: sum.splits prod.splits)

lemma loadTrack_cannot_reopen:
  assumes "used t" "\<not> toBeRemoved t" "\<not> souStreamUsed t" "curRegion t \<noteq> - 1"
    and "openSound env (soundId t) (soundName t) (soundType t) (volGroupId t) (- 1) = None"
    and "openSound env (soundId t) (soundName t) (soundType t) (volGroupId t) 1 = None"
    and "openSound env (soundId t) (soundName t) (soundType t) (volGroupId t) 2 = None"
  shows "loadTrack env l t =
           Inr (t\<lparr>trackId := l, soundDesc := None, used := False\<rparr>,
                [''IMuseDigital::saveOrLoad: Can't open sound so will not be resumed''])"
  using assms by (simp add: loadTrack_def reopenSound_def)

text \<open>
  Claim C8. A saved track that was in use and is to be resumed (not marked for removal, not
  a SOU stream, with a region) whose sound cannot be reopened, all three attempts
  returning null: loading marks it unused, with its slot number and no sound, and logs
  the warning; the slots before it and after it are loaded as they are without it, their
  tracks and warnings placed around its own.
\<close>

theorem C8_reopen_failure_recovered:
  assumes "used t" "\<not> toBeRemoved t" "\<not> souStreamUsed t" "curRegion t \<noteq> - 1"
    and "openSound env (soundId t) (soundName t) (soundType t) (volGroupId t) (- 1) = None"
    and "openSound env (soundId t) (soundName t) (soundType t) (volGroupId t) 1 = None"
    and "openSound env (soundId t) (soundName t) (soundType t) (volGroupId t) 2 = None"
  shows "loadTrack env l t =
           Inr (t\<lparr>trackId := l, soundDesc := None, used := False\<rparr>,
                [''IMuseDigital::saveOrLoad: Can't open sound so will not be resumed''])
       \<and> loadTracks env l (before @ t # after) =
           (case loadTracks env l before of
              Inl e \<Rightarrow> Inl e
            | Inr (bs, w1) \<Rightarrow>
                (case loadTracks env (l + int (length before) + 1) after of
                   Inl e \<Rightarrow> Inl e
                 | Inr (as, w2) \<Rightarrow>
                     Inr (bs @ t\<lparr>trackId := l + int (length before), soundDesc := None,
                                  used := False\<rparr> # as,
                          w1 @ ''IMuseDigital::saveOrLoad: Can't open sound so will not be resumed''
                             # w2)))"
proof -
  have "loadTrack env l' t =
           Inr (t\<lparr>trackId := l', soundDesc := None, used := False\<rparr>,
                [''IMuseDigital::saveOrLoad: Can't open sound so will not be resumed''])" for l'
    using assms by (rule loadTrack_cannot_reopen)
  then show ?thesis
    by (simp add: loadTracks_append split: sum.splits prod.splits)
qed

text \<open>
  Three saved slots: one not in use, one in use whose sound cannot be opened, one that
  was being removed. All three are loaded, the second unused with one warning.
\<close>

theorem C8_reopen_failure_recovered_witness:
  "loadTracks (exEnv GID_CMI) 0
     ([exTrack\<lparr>used := False\<rparr>] @ exTrack\<lparr>trackId := 0\<rparr> # [exTrack\<lparr>toBeRemoved := True\<rparr>])
   = Inr ([exTrack\<lparr>used := False, trackId := 0\<rparr>,
           exTrack\<lparr>trackId := 1, soundDesc := None, used := False\<rparr>,
           exTrack\<lparr>toBeRemoved := True, trackId := 2, used := False\<rparr>],
          [''IMuseDigital::saveOrLoad: Can't open sound so will not be resumed''])"
proof -
  let ?t = "exTrack\<lparr>trackId := 0\<rparr>"
  have h: "used ?t" "\<not> toBeRemoved ?t" "\<not> souStreamUsed ?t" "curRegion ?t \<noteq> - 1"
    "openSound (exEnv GID_CMI) (soundId ?t) (soundName ?t) (soundType ?t) (volGroupId ?t) (- 1) = None"
    "openSound (exEnv GID_CMI) (soundId ?t) (soundName ?t) (soundType ?t) (volGroupId ?t) 1 = None"
    "openSound (exEnv GID_CMI) (soundId ?t) (soundName ?t) (soundType ?t) (volGroupId ?t) 2 = None"
    by (simp_all add: exTrack_def exEnv_def)
  show ?thesis
    using C8_reopen_failure_recovered[OF h, of 0 "[exTrack\<lparr>used := False\<rparr>]"
        "[exTrack\<lparr>toBeRemoved := True\<rparr>]"]
    by (simp add: loadTrack_def exTrack_def)
qed

subsection \<open>The assertion of the feed loop\<close>

lemma switchToNextRegion_errors:
  "switchToNextRegion env eng t = Inl e \<Longrightarrow> e \<noteq> AssertionFailed ''feedSize >= 0''"
  by (auto simp add: switchToNextRegion_def jumpOrAdvance_def triggerReached_def
        setupFadeTrack_def Let_def split: option.splits if_splits sum.splits)

lemma applySwitch_sizes:
  "lsFeedSize (applySwitch ls r) = lsFeedSize ls"
  "lsCurFeedSize (applySwitch ls r) = lsCurFeedSize ls"
  by (simp_all add: applySwitch_def)

lemma clampFeed_le: "lsCurFeedSize (clampFeed ls) \<le> lsFeedSize (clampFeed ls)"
  by (simp add: clampFeed_def)

lemma queueBuffer_sizes:
  "lsFeedSize (queueBuffer orc ls) = lsFeedSize ls"
  "lsCurFeedSize (queueBuffer orc ls) = lsCurFeedSize ls"
  by (simp_all add: queueBuffer_def)

lemma regionEnd_sizes:
  "regionEnd env orc ls = Inr ls' \<Longrightarrow>
     lsFeedSize ls' = lsFeedSize ls \<and> lsCurFeedSize ls' = lsCurFeedSize ls"
  by (auto simp add: regionEnd_def applySwitch_sizes split: if_splits sum.splits)

lemma regionEnd_errors:
  "regionEnd env orc ls = Inl e \<Longrightarrow> e \<noteq> AssertionFailed ''feedSize >= 0''"
  by (auto simp add: regionEnd_def split: if_splits sum.splits dest: switchToNextRegion_errors)

lemma feedIteration_assert:
  "feedIteration env bits channels orc ls \<noteq> Inl (AssertionFailed ''feedSize >= 0'')"
proof (cases "regionEnd env orc (queueBuffer orc (clampFeed (readSamples bits channels orc ls)))")
  case (Inl e)
  then show ?thesis using regionEnd_errors[OF Inl] by (simp add: feedIteration_def)
next
  case (Inr ls4)
  have "lsCurFeedSize ls4 \<le> lsFeedSize ls4"
    using regionEnd_sizes[OF Inr] clampFeed_le[of "readSamples bits channels orc ls"]
    by (simp add: queueBuffer_sizes)
  then show ?thesis using Inr by (simp add: feedIteration_def Let_def)
qed

lemma feedIteration_nonneg:
  "feedIteration env bits channels orc ls = Inr (brk, ls') \<Longrightarrow> \<not> brk \<Longrightarrow> 0 \<le> lsFeedSize ls'"
  by (auto simp add: feedIteration_def Let_def split: sum.splits if_splits)

lemma feedLoop_assert:
  "feedLoop env bits channels orcs ls \<noteq> Inl (AssertionFailed ''feedSize >= 0'')"
proof (induction orcs arbitrary: ls)
  case Nil
  then show ?case by simp
next
  case (Cons orc orcs)
  show ?case
    using feedIteration_assert[of env bits channels orc ls] Cons.IH
    by (auto split: sum.splits prod.splits)
qed

lemma feedBlock_assert:
  "feedBlock env orc ls \<noteq> Inl (AssertionFailed ''feedSize >= 0'')"
  using feedLoop_assert switchToNextRegion_errors
  by (auto simp add: feedBlock_def startFeed_def Let_def split: sum.splits option.splits if_splits)

lemma callbackTrack_assert:
  "callbackTrack env sp orc ls \<noteq> Inl (AssertionFailed ''feedSize >= 0'')"
  using feedBlock_assert
  by (auto simp add: callbackTrack_def Let_def split: Outcome.splits sum.splits)

text \<open>
  Claim C10. In every iteration of the feed loop \<^verbatim>\<open>curFeedSize\<close> is at most \<^verbatim>\<open>feedSize\<close>
  after the clamp, whatever \<^verbatim>\<open>getDataFromRegion\<close> and the decoder returned, so the
  subtraction leaves \<^verbatim>\<open>feedSize\<close> at 0 or above: no iteration, no run of the loop on any
  answers of the collaborators, and no tick of the callback for a track fails the
  assertion \<^verbatim>\<open>feedSize >= 0\<close>.
\<close>

theorem C10_feed_assertion_holds:
  "lsCurFeedSize (clampFeed ls) \<le> lsFeedSize (clampFeed ls)
   \<and> feedIteration env bits channels orc ls \<noteq> Inl (AssertionFailed ''feedSize >= 0'')
   \<and> feedLoop env bits channels orcs ls \<noteq> Inl (AssertionFailed ''feedSize >= 0'')
   \<and> callbackTrack env sp torc ls \<noteq> Inl (AssertionFailed ''feedSize >= 0'')"
  using clampFeed_le feedIteration_assert feedLoop_assert callbackTrack_assert by blast


text \<open>
  An 8-bit mono track that wants 8820 bytes and is handed 100000: 8820 are queued and
  nothing is left to feed.
\<close>

theorem C10_feed_assertion_holds_witness:
  "feedIteration (exEnv GID_DIG) 8 1
     \<lparr>dataFromRegion = 100000, decoded12 = 0, mixerIsReady = True, endOfRegion = False\<rparr>
     ((exLoop exTrack)\<lparr>lsFeedSize := 8820\<rparr>)
   = Inr (False, (exLoop (exTrack\<lparr>regionOffset := 8820\<rparr>))\<lparr>lsFeedSize := 0,
                    lsCurFeedSize := 8820\<rparr>)
   \<and> feedIteration (exEnv GID_DIG) 8 1
     \<lparr>dataFromRegion = 100000, decoded12 = 0, mixerIsReady = True, endOfRegion = False\<rparr>
     ((exLoop exTrack)\<lparr>lsFeedSize := 8820\<rparr>) \<noteq> Inl (AssertionFailed ''feedSize >= 0'')"
proof -
  have "feedIteration (exEnv GID_DIG) 8 1
     \<lparr>dataFromRegion = 100000, decoded12 = 0, mixerIsReady = True, endOfRegion = False\<rparr>
     ((exLoop exTrack)\<lparr>lsFeedSize := 8820\<rparr>)
   = Inr (False, (exLoop (exTrack\<lparr>regionOffset := 8820\<rparr>))\<lparr>lsFeedSize := 0,
                    lsCurFeedSize := 8820\<rparr>)"
    by (simp add: feedIteration_def regionEnd_def queueBuffer_def clampFeed_def readSamples_def
          exLoop_def exEngine_def exTrack_def Let_def)
  then show ?thesis
    using C10_feed_assertion_holds[of "(exLoop exTrack)\<lparr>lsFeedSize := 8820\<rparr>" "exEnv GID_DIG" 8 1
        "\<lparr>dataFromRegion = 100000, decoded12 = 0, mixerIsReady = True, endOfRegion = False\<rparr>"]
    by simp
qed

end
